theory Spec2Isabelle
  imports Main
begin

section \<open>Values exchanged with the client\<close>

text \<open>
  The handlers of \<^verbatim>\<open>app/routers/products.py\<close> and the fallback handler of
  \<^verbatim>\<open>app/main.py\<close> build their error payloads as Python dictionaries whose values are
  strings or integers. A dictionary literal is an association list in the order it is written.
  A Python \<^verbatim>\<open>str\<close> is modelled by its UTF-8 encoding.
\<close>

datatype json = JStr string | JInt int

type_synonym detail = "(string \<times> json) list"

text \<open>
  The exceptions the handlers distinguish. \<^verbatim>\<open>MultipleResultsFound\<close> is a subclass of
  \<^verbatim>\<open>SQLAlchemyError\<close> (through \<^verbatim>\<open>InvalidRequestError\<close>); \<open>SQLAlchemyError\<close> stands for
  every other instance of that class and carries \<^verbatim>\<open>str(e)\<close>. \<open>OtherException\<close> is any
  exception outside those classes, again with its text.
\<close>

datatype exn =
    HTTPException int detail
  | SQLAlchemyError string
  | MultipleResultsFound
  | RequestValidationError
  | OtherException string

fun isinstance_HTTPException :: "exn \<Rightarrow> bool" where
  "isinstance_HTTPException (HTTPException sc d) = True"
| "isinstance_HTTPException e = False"

fun isinstance_SQLAlchemyError :: "exn \<Rightarrow> bool" where
  "isinstance_SQLAlchemyError (SQLAlchemyError m) = True"
| "isinstance_SQLAlchemyError MultipleResultsFound = True"
| "isinstance_SQLAlchemyError e = False"

text \<open>The three Japanese messages of the handlers, as UTF-8 bytes.\<close>

definition msg_not_registered :: string where
  \<comment> \<open>"The given product code is not registered" (20 code points)\<close>
  "msg_not_registered = map char_of
     [230, 140, 135, 229, 174, 154, 227, 129, 149, 227, 130, 140, 227, 129, 159, 229, 149, 134,
      229, 147, 129, 227, 130, 179, 227, 131, 188, 227, 131, 137, 227, 129, 175, 231, 153, 187,
      233, 140, 178, 227, 129, 149, 227, 130, 140, 227, 129, 166, 227, 129, 132, 227, 129, 190,
      227, 129, 155, 227, 130, 147 :: nat]"

definition msg_database_error :: string where
  \<comment> \<open>"An error occurred during database processing" (20 code points)\<close>
  "msg_database_error = map char_of
     [227, 131, 135, 227, 131, 188, 227, 130, 191, 227, 131, 153, 227, 131, 188, 227, 130, 185,
      229, 135, 166, 231, 144, 134, 228, 184, 173, 227, 129, 171, 227, 130, 168, 227, 131, 169,
      227, 131, 188, 227, 129, 140, 231, 153, 186, 231, 148, 159, 227, 129, 151, 227, 129, 190,
      227, 129, 151, 227, 129, 159 :: nat]"

definition msg_internal_error :: string where
  \<comment> \<open>"An internal server error occurred" (16 code points)\<close>
  "msg_internal_error = map char_of
     [227, 130, 181, 227, 131, 188, 227, 131, 144, 227, 131, 188, 229, 134, 133, 233, 131, 168,
      227, 130, 168, 227, 131, 169, 227, 131, 188, 227, 129, 140, 231, 153, 186, 231, 148, 159,
      227, 129, 151, 227, 129, 190, 227, 129, 151, 227, 129, 159 :: nat]"

definition product_not_found_detail :: "int \<Rightarrow> detail" where
  "product_not_found_detail c =
     [(''error'', JStr ''Product not found''),
      (''message'', JStr msg_not_registered),
      (''code'', JInt c)]"

definition database_error_detail :: detail where
  "database_error_detail =
     [(''error'', JStr ''Database Error''),
      (''message'', JStr msg_database_error)]"

definition internal_server_error_detail :: detail where
  "internal_server_error_detail =
     [(''error'', JStr ''Internal Server Error''),
      (''message'', JStr msg_internal_error)]"

section \<open>The product table and its public representation\<close>

text \<open>
  Modelled from the spec: the ORM class \<^verbatim>\<open>Product\<close> of \<^verbatim>\<open>app/models.py\<close> is not among the
  sources. The specification gives a row the internal identifier \<open>prd_id\<close>, the numeric
  \<open>code\<close>, the display \<open>name\<close> and further catalog attributes that it does not detail; these
  are the type parameter.
\<close>

record 'a Product =
  prd_id :: int
  code :: int
  name :: string
  attributes :: 'a

text \<open>
  Modelled from the spec: the response model \<^verbatim>\<open>ProductSchema\<close> of \<^verbatim>\<open>app/schemas.py\<close> is not
  among the sources. The specification describes the public representation as the row's
  fields \<open>prd_id\<close>, \<open>code\<close>, \<open>name\<close> and the other catalog attributes, and \<^verbatim>\<open>from_orm\<close> as
  the conversion of a row into it.
\<close>

record 'a ProductSchema =
  prd_id :: int
  code :: int
  name :: string
  attributes :: 'a

definition from_orm :: "'a Product \<Rightarrow> 'a ProductSchema" where
  "from_orm product =
     \<lparr>ProductSchema.prd_id = Product.prd_id product,
      ProductSchema.code = Product.code product,
      ProductSchema.name = Product.name product,
      ProductSchema.attributes = Product.attributes product\<rparr>"

section \<open>Statements and the session\<close>

text \<open>
  The handlers build their statements with \<^verbatim>\<open>select(Product)\<close> followed by
  \<^verbatim>\<open>.where(Product.code == code)\<close>, \<^verbatim>\<open>.limit\<close>, \<^verbatim>\<open>.offset\<close> and
  \<^verbatim>\<open>.order_by(Product.prd_id)\<close>. A statement records which clauses were set.
\<close>

record Select =
  where_code_eq :: "int option"
  limit_clause :: "int option"
  offset_clause :: "int option"
  order_by_clause :: bool

definition select_Product :: Select where
  "select_Product =
     \<lparr>where_code_eq = None, limit_clause = None, offset_clause = None, order_by_clause = False\<rparr>"

definition where_code :: "int \<Rightarrow> Select \<Rightarrow> Select" where
  "where_code c stmt = stmt\<lparr>where_code_eq := Some c\<rparr>"

definition limit :: "int \<Rightarrow> Select \<Rightarrow> Select" where
  "limit l stmt = stmt\<lparr>limit_clause := Some l\<rparr>"

definition offset :: "int \<Rightarrow> Select \<Rightarrow> Select" where
  "offset off stmt = stmt\<lparr>offset_clause := Some off\<rparr>"

definition order_by_prd_id :: "Select \<Rightarrow> Select" where
  "order_by_prd_id stmt = stmt\<lparr>order_by_clause := True\<rparr>"

text \<open>
  The session \<^verbatim>\<open>db\<close> stands for the database behind it: \<open>rows\<close> is the product table,
  \<open>fault\<close> is the exception every \<^verbatim>\<open>db.execute\<close> raises when the store is failing,
  \<open>executed\<close> is the trace of the statements handed to \<^verbatim>\<open>db.execute\<close>. What a database
  does with a negative \<^verbatim>\<open>LIMIT\<close> or \<^verbatim>\<open>OFFSET\<close> differs between engines (some reject the
  statement, some ignore the clause), and the engine is configured in \<^verbatim>\<open>app/db.py\<close>, which
  is not among the sources; \<open>negative_page\<close> is that behaviour, from the statement and the
  selected rows in their order.
\<close>

record 'a AsyncSession =
  rows :: "'a Product list"
  fault :: "exn option"
  negative_page :: "Select \<Rightarrow> 'a Product list \<Rightarrow> exn + 'a Product list"
  executed :: "Select list"

definition is_negative :: "int option \<Rightarrow> bool" where
  "is_negative v = (case v of None \<Rightarrow> False | Some n \<Rightarrow> n < 0)"

definition apply_offset :: "int option \<Rightarrow> 'b list \<Rightarrow> 'b list" where
  "apply_offset v xs = (case v of None \<Rightarrow> xs | Some n \<Rightarrow> drop (nat n) xs)"

definition apply_limit :: "int option \<Rightarrow> 'b list \<Rightarrow> 'b list" where
  "apply_limit v xs = (case v of None \<Rightarrow> xs | Some n \<Rightarrow> take (nat n) xs)"

definition fetch :: "'a AsyncSession \<Rightarrow> Select \<Rightarrow> exn + 'a Product list" where
  "fetch db stmt =
     (let matching = (case where_code_eq stmt of
                        None \<Rightarrow> rows db
                      | Some c \<Rightarrow> filter (\<lambda>p. Product.code p = c) (rows db));
          ordered = (if order_by_clause stmt then sort_key Product.prd_id matching else matching)
      in if is_negative (limit_clause stmt) \<or> is_negative (offset_clause stmt)
         then negative_page db stmt ordered
         else Inr (apply_limit (limit_clause stmt) (apply_offset (offset_clause stmt) ordered)))"

definition execute ::
  "'a AsyncSession \<Rightarrow> Select \<Rightarrow> (exn + 'a Product list) \<times> 'a AsyncSession" where
  "execute db stmt =
     ((case fault db of Some e \<Rightarrow> Inl e | None \<Rightarrow> fetch db stmt),
      db\<lparr>executed := executed db @ [stmt]\<rparr>)"

fun scalar_one_or_none :: "'b list \<Rightarrow> exn + 'b option" where
  "scalar_one_or_none [] = Inr None"
| "scalar_one_or_none [x] = Inr (Some x)"
| "scalar_one_or_none (x # y # zs) = Inl MultipleResultsFound"

section \<open>The handlers of the product router\<close>

text \<open>
  A handler returns its value or raises, and hands back the session. The path parameter
  \<^verbatim>\<open>code\<close> is written \<open>c\<close>, the name \<open>code\<close> being the row's field. The logging calls write
  to the process log only and are left out. The body of each \<^verbatim>\<open>try\<close> is one function, its
  \<^verbatim>\<open>except\<close> clauses, tried in the order they are written, another.
\<close>

definition get_product_by_code_try ::
  "int \<Rightarrow> 'a AsyncSession \<Rightarrow> (exn + 'a ProductSchema) \<times> 'a AsyncSession" where
  "get_product_by_code_try c db =
     (let stmt = where_code c select_Product;
          (result, db') = execute db stmt
      in case result of
           Inl e \<Rightarrow> (Inl e, db')
         | Inr found \<Rightarrow>
             (case scalar_one_or_none found of
                Inl e \<Rightarrow> (Inl e, db')
              | Inr None \<Rightarrow> (Inl (HTTPException 404 (product_not_found_detail c)), db')
              | Inr (Some product) \<Rightarrow> (Inr (from_orm product), db')))"

definition get_product_by_code_except :: "exn \<Rightarrow> exn" where
  "get_product_by_code_except e =
     (if isinstance_HTTPException e then e
      else if isinstance_SQLAlchemyError e then HTTPException 500 database_error_detail
      else HTTPException 500 internal_server_error_detail)"

definition get_product_by_code ::
  "int \<Rightarrow> 'a AsyncSession \<Rightarrow> (exn + 'a ProductSchema) \<times> 'a AsyncSession" where
  "get_product_by_code c db =
     (case get_product_by_code_try c db of
        (Inl e, db') \<Rightarrow> (Inl (get_product_by_code_except e), db')
      | (Inr product, db') \<Rightarrow> (Inr product, db'))"

definition get_products_try ::
  "int \<Rightarrow> int \<Rightarrow> 'a AsyncSession \<Rightarrow> (exn + 'a ProductSchema list) \<times> 'a AsyncSession" where
  "get_products_try lim off db =
     (let stmt = order_by_prd_id (offset off (limit lim select_Product));
          (result, db') = execute db stmt
      in case result of
           Inl e \<Rightarrow> (Inl e, db')
         | Inr products \<Rightarrow> (Inr (map from_orm products), db'))"

definition get_products_except :: "exn \<Rightarrow> exn" where
  "get_products_except e =
     (if isinstance_SQLAlchemyError e then HTTPException 500 database_error_detail
      else HTTPException 500 internal_server_error_detail)"

definition get_products ::
  "int \<Rightarrow> int \<Rightarrow> 'a AsyncSession \<Rightarrow> (exn + 'a ProductSchema list) \<times> 'a AsyncSession" where
  "get_products lim off db =
     (case get_products_try lim off db of
        (Inl e, db') \<Rightarrow> (Inl (get_products_except e), db')
      | (Inr products, db') \<Rightarrow> (Inr products, db'))"

section \<open>The HTTP surface\<close>

text \<open>
  The path parameter of \<^verbatim>\<open>GET /products/{code}\<close> is declared with \<^verbatim>\<open>ge=1\<close> and
  \<^verbatim>\<open>le=99999999999999999999999999\<close>; the framework checks both before it calls the
  handler and answers a request that fails them itself. The listing's \<^verbatim>\<open>limit\<close> and
  \<^verbatim>\<open>offset\<close> are plain integers with the defaults 100 and 0.
\<close>

definition code_ge :: int where
  "code_ge = 1"

definition code_le :: int where
  "code_le = 99999999999999999999999999"

definition route_get_product_by_code ::
  "int \<Rightarrow> 'a AsyncSession \<Rightarrow> (exn + 'a ProductSchema) \<times> 'a AsyncSession" where
  "route_get_product_by_code c db =
     (if code_ge \<le> c \<and> c \<le> code_le then get_product_by_code c db
      else (Inl RequestValidationError, db))"

definition route_get_products ::
  "int option \<Rightarrow> int option \<Rightarrow> 'a AsyncSession
     \<Rightarrow> (exn + 'a ProductSchema list) \<times> 'a AsyncSession" where
  "route_get_products lim off db =
     get_products (case lim of None \<Rightarrow> 100 | Some l \<Rightarrow> l)
                  (case off of None \<Rightarrow> 0 | Some n \<Rightarrow> n) db"

record JSONResponse =
  status_code :: int
  content :: detail

definition global_exception_handler :: "'r \<Rightarrow> exn \<Rightarrow> JSONResponse" where
  "global_exception_handler request exc =
     \<lparr>status_code = 500,
      content = [(''error'', JStr ''Internal Server Error''),
                 (''message'', JStr ''An unexpected error occurred'')]\<rparr>"

text \<open>
  The status the client sees: 200 for a returned value, the exception's own status for an
  \<^verbatim>\<open>HTTPException\<close>, 422 for a request the framework's validation refused, and the fallback
  handler's status for everything else.
\<close>

fun http_status :: "exn + 'b \<Rightarrow> int" where
  "http_status (Inr v) = 200"
| "http_status (Inl (HTTPException sc d)) = sc"
| "http_status (Inl RequestValidationError) = 422"
| "http_status (Inl e) = status_code (global_exception_handler () e)"

section \<open>Example stores\<close>

text \<open>
  Three seeded rows, stored out of identifier order, with a price as the further attribute;
  sessions over them on an engine that rejects a negative \<^verbatim>\<open>LIMIT\<close> or \<^verbatim>\<open>OFFSET\<close>, on an
  engine that ignores such a clause, on a store that fails with a \<^verbatim>\<open>SQLAlchemyError\<close> and on
  a store that fails with an exception of another class; and a table in which one code occurs
  twice.
\<close>

definition example_rows :: "int Product list" where
  "example_rows =
     [\<lparr>Product.prd_id = 3, code = 4901234567894, name = ''Green tea'', attributes = 150\<rparr>,
      \<lparr>Product.prd_id = 1, code = 4902102072618, name = ''Cola'', attributes = 120\<rparr>,
      \<lparr>Product.prd_id = 2, code = 4514603365313, name = ''Water'', attributes = 100\<rparr>]"

definition reject_negative :: "Select \<Rightarrow> 'a Product list \<Rightarrow> exn + 'a Product list" where
  "reject_negative stmt ordered = Inl (SQLAlchemyError ''negative LIMIT or OFFSET'')"

definition ignore_negative :: "Select \<Rightarrow> 'a Product list \<Rightarrow> exn + 'a Product list" where
  "ignore_negative stmt ordered =
     Inr (apply_limit (if is_negative (limit_clause stmt) then None else limit_clause stmt)
           (apply_offset (if is_negative (offset_clause stmt) then None else offset_clause stmt)
              ordered))"

definition example_db :: "int AsyncSession" where
  "example_db =
     \<lparr>rows = example_rows, fault = None, negative_page = reject_negative, executed = []\<rparr>"

definition example_db_lenient :: "int AsyncSession" where
  "example_db_lenient =
     \<lparr>rows = example_rows, fault = None, negative_page = ignore_negative, executed = []\<rparr>"

definition example_db_failing :: "int AsyncSession" where
  "example_db_failing =
     \<lparr>rows = example_rows, fault = Some (SQLAlchemyError ''connection refused''),
      negative_page = reject_negative, executed = []\<rparr>"

definition example_db_broken :: "int AsyncSession" where
  "example_db_broken =
     \<lparr>rows = example_rows, fault = Some (OtherException ''connection reset by peer''),
      negative_page = reject_negative, executed = []\<rparr>"

definition example_db_duplicates :: "int AsyncSession" where
  "example_db_duplicates =
     \<lparr>rows = [\<lparr>Product.prd_id = 1, code = 4902102072618, name = ''Cola'', attributes = 120\<rparr>,
              \<lparr>Product.prd_id = 2, code = 4902102072618, name = ''Cola zero'',
                 attributes = 130\<rparr>],
      fault = None, negative_page = reject_negative, executed = []\<rparr>"

section \<open>What a statement does to the session\<close>

lemma execute_rows [simp]: "rows (snd (execute db stmt)) = rows db"
  by (simp add: execute_def)

lemma execute_executed [simp]: "executed (snd (execute db stmt)) = executed db @ [stmt]"
  by (simp add: execute_def)

lemma fetch_where_code:
  "fetch db (where_code c select_Product) = Inr (filter (\<lambda>p. Product.code p = c) (rows db))"
  by (simp add: fetch_def where_code_def select_Product_def is_negative_def apply_limit_def
      apply_offset_def)

lemma try_found:
  assumes "fault db = None" and "filter (\<lambda>p. Product.code p = c) (rows db) = found"
  shows "fst (get_product_by_code_try c db) =
    (case scalar_one_or_none found of
       Inl e \<Rightarrow> Inl e
     | Inr None \<Rightarrow> Inl (HTTPException 404 (product_not_found_detail c))
     | Inr (Some product) \<Rightarrow> Inr (from_orm product))"
  using assms
  by (simp add: get_product_by_code_try_def execute_def fetch_where_code
      split: sum.splits option.splits)

lemma get_product_by_code_fst:
  "fst (get_product_by_code c db) =
     (case fst (get_product_by_code_try c db) of
        Inl e \<Rightarrow> Inl (get_product_by_code_except e)
      | Inr p \<Rightarrow> Inr p)"
  by (simp add: get_product_by_code_def split: prod.splits sum.splits)

section \<open>Product lookup\<close>

text \<open>
  C1. When the store answers and exactly one row of the table has the requested code, the
  lookup handler returns the public representation of that row, which the client receives
  with status 200, and the \<open>code\<close> field of that body is the requested code. For a code inside
  the declared bounds the route gives the same answer.
\<close>

theorem get_product_by_code_found:
  assumes "fault db = None"
    and "filter (\<lambda>p. Product.code p = c) (rows db) = [row]"
  shows "fst (get_product_by_code c db) = Inr (from_orm row)
       \<and> http_status (fst (get_product_by_code c db)) = 200
       \<and> ProductSchema.code (from_orm row) = c
       \<and> (code_ge \<le> c \<and> c \<le> code_le \<longrightarrow>
            fst (route_get_product_by_code c db) = Inr (from_orm row))"
proof -
  have "row \<in> set (filter (\<lambda>p. Product.code p = c) (rows db))"
    using assms(2) by simp
  then have c: "Product.code row = c" by simp
  have r: "fst (get_product_by_code c db) = Inr (from_orm row)"
    using try_found [OF assms] by (simp add: get_product_by_code_fst)
  show ?thesis using r c by (simp add: route_get_product_by_code_def from_orm_def)
qed

theorem get_product_by_code_found_witness:
  "fault example_db = None
   \<and> filter (\<lambda>p. Product.code p = 4902102072618) (rows example_db)
       = [\<lparr>Product.prd_id = 1, code = 4902102072618, name = ''Cola'', attributes = 120\<rparr>]
   \<and> fst (get_product_by_code 4902102072618 example_db)
       = Inr \<lparr>ProductSchema.prd_id = 1, code = 4902102072618, name = ''Cola'', attributes = 120\<rparr>
   \<and> http_status (fst (get_product_by_code 4902102072618 example_db)) = 200
   \<and> fst (route_get_product_by_code 4902102072618 example_db)
       = Inr \<lparr>ProductSchema.prd_id = 1, code = 4902102072618, name = ''Cola'', attributes = 120\<rparr>"
proof -
  have f: "fault example_db = None"
    by (simp add: example_db_def)
  have r: "filter (\<lambda>p. Product.code p = 4902102072618) (rows example_db)
       = [\<lparr>Product.prd_id = 1, code = 4902102072618, name = ''Cola'', attributes = 120\<rparr>]"
    by (simp add: example_db_def example_rows_def)
  have b: "code_ge \<le> 4902102072618 \<and> 4902102072618 \<le> code_le"
    by (simp add: code_ge_def code_le_def)
  show ?thesis
    using get_product_by_code_found [OF f r] f r b by (simp add: from_orm_def)
qed

text \<open>
  C2. When the store answers and no row of the table has the requested code, a request with
  a code inside the declared bounds ends in the handler's \<^verbatim>\<open>HTTPException\<close> of status 404,
  whose detail names the error kind, carries the (non-empty) message and repeats the
  requested code.
\<close>

theorem get_product_by_code_not_found:
  assumes "fault db = None"
    and "code_ge \<le> c" and "c \<le> code_le"
    and "filter (\<lambda>p. Product.code p = c) (rows db) = []"
  shows "fst (route_get_product_by_code c db)
           = Inl (HTTPException 404
                   [(''error'', JStr ''Product not found''),
                    (''message'', JStr msg_not_registered),
                    (''code'', JInt c)])
       \<and> fst (get_product_by_code c db) = fst (route_get_product_by_code c db)
       \<and> http_status (fst (route_get_product_by_code c db)) = 404
       \<and> msg_not_registered \<noteq> []"
proof -
  have "fst (get_product_by_code c db) = Inl (HTTPException 404 (product_not_found_detail c))"
    using try_found [OF assms(1) assms(4)]
    by (simp add: get_product_by_code_fst get_product_by_code_except_def)
  then show ?thesis
    using assms(2,3)
    by (simp add: route_get_product_by_code_def product_not_found_detail_def
        msg_not_registered_def)
qed

theorem get_product_by_code_not_found_witness:
  "fault example_db = None \<and> code_ge \<le> 4900000000000 \<and> 4900000000000 \<le> code_le
   \<and> filter (\<lambda>p. Product.code p = 4900000000000) (rows example_db) = []
   \<and> fst (route_get_product_by_code 4900000000000 example_db)
           = Inl (HTTPException 404
                   [(''error'', JStr ''Product not found''),
                    (''message'', JStr msg_not_registered),
                    (''code'', JInt 4900000000000)])
   \<and> http_status (fst (route_get_product_by_code 4900000000000 example_db)) = 404"
proof -
  have f: "fault example_db = None"
    by (simp add: example_db_def)
  have g: "code_ge \<le> 4900000000000" and l: "4900000000000 \<le> code_le"
    by (simp_all add: code_ge_def code_le_def)
  have r: "filter (\<lambda>p. Product.code p = 4900000000000) (rows example_db) = []"
    by (simp add: example_db_def example_rows_def)
  show ?thesis
    using get_product_by_code_not_found [OF f g l r] f g l r by simp
qed

section \<open>Results and sessions of the handlers\<close>

lemma get_products_fst:
  "fst (get_products lim off db) =
     (case fst (get_products_try lim off db) of
        Inl e \<Rightarrow> Inl (get_products_except e)
      | Inr ps \<Rightarrow> Inr ps)"
  by (simp add: get_products_def split: prod.splits sum.splits)

lemma get_product_by_code_try_snd:
  "snd (get_product_by_code_try c db) = snd (execute db (where_code c select_Product))"
  by (simp add: get_product_by_code_try_def Let_def split: prod.splits sum.splits option.splits)

lemma get_product_by_code_snd:
  "snd (get_product_by_code c db) = snd (execute db (where_code c select_Product))"
proof (cases "get_product_by_code_try c db")
  case (Pair r db')
  then show ?thesis
    using get_product_by_code_try_snd [of c db]
    by (cases r) (simp_all add: get_product_by_code_def)
qed

lemma get_products_try_snd:
  "snd (get_products_try lim off db) =
     snd (execute db (order_by_prd_id (offset off (limit lim select_Product))))"
  by (simp add: get_products_try_def Let_def split: prod.splits sum.splits)

lemma get_products_snd:
  "snd (get_products lim off db) =
     snd (execute db (order_by_prd_id (offset off (limit lim select_Product))))"
proof (cases "get_products_try lim off db")
  case (Pair r db')
  then show ?thesis
    using get_products_try_snd [of lim off db]
    by (cases r) (simp_all add: get_products_def)
qed

lemma try_fault:
  assumes "fault db = Some e"
  shows "fst (get_product_by_code_try c db) = Inl e"
    and "fst (get_products_try lim off db) = Inl e"
  using assms by (simp_all add: get_product_by_code_try_def get_products_try_def execute_def)

lemma fetch_page:
  assumes "0 \<le> lim" and "0 \<le> off"
  shows "fetch db (order_by_prd_id (offset off (limit lim select_Product)))
       = Inr (take (nat lim) (drop (nat off) (sort_key Product.prd_id (rows db))))"
  using assms
  by (simp add: fetch_def order_by_prd_id_def offset_def limit_def select_Product_def
      is_negative_def apply_limit_def apply_offset_def)

lemma get_products_ok:
  assumes "fault db = None" and "0 \<le> lim" and "0 \<le> off"
  shows "fst (get_products lim off db)
       = Inr (map from_orm (take (nat lim) (drop (nat off) (sort_key Product.prd_id (rows db)))))"
  using assms
  by (simp add: get_products_fst get_products_try_def execute_def fetch_page)

lemma from_orm_prd_id: "map ProductSchema.prd_id (map from_orm ps) = map Product.prd_id ps"
  by (simp add: from_orm_def comp_def)

lemma sorted_page:
  "sorted (map Product.prd_id (take n (drop m (sort_key Product.prd_id rs))))"
proof -
  have "sorted (map Product.prd_id (sort_key Product.prd_id rs))"
    by (rule sorted_sort_key)
  then have "sorted (drop m (map Product.prd_id (sort_key Product.prd_id rs)))"
    by (rule sorted_wrt_drop)
  then have "sorted (take n (drop m (map Product.prd_id (sort_key Product.prd_id rs))))"
    by (rule sorted_wrt_take)
  then show ?thesis by (simp add: take_map drop_map)
qed

lemma second_and_third:
  assumes "3 \<le> length xs"
  shows "take 2 (drop 1 xs) = [xs ! 1, xs ! 2]"
proof -
  obtain a b c ys where "xs = a # b # c # ys"
    using assms by (cases xs; cases "tl xs"; cases "tl (tl xs)") auto
  then show ?thesis by simp
qed

section \<open>Product listing\<close>

text \<open>
  C3, for a non-negative \<open>limit\<close> and \<open>offset\<close>. When the store answers and neither
  \<open>limit\<close> nor \<open>offset\<close> is negative, the listing handler returns, with status 200, the public representations of the table's rows
  sorted by ascending \<open>prd_id\<close>, the first \<open>offset\<close> of them skipped and at most \<open>limit\<close>
  taken. Without parameters the route takes the defaults 100 and 0, so it returns at most the
  first 100 rows in identifier order; with \<open>limit=2\<close> and \<open>offset=1\<close> over at least three
  rows it returns exactly the second and the third row in identifier order.
\<close>

theorem get_products_page:
  assumes "fault db = None" and "0 \<le> lim" and "0 \<le> off"
  shows "(\<exists>ps. fst (get_products lim off db) = Inr ps
            \<and> ps = map from_orm
                    (take (nat lim) (drop (nat off) (sort_key Product.prd_id (rows db))))
            \<and> sorted (map ProductSchema.prd_id ps)
            \<and> int (length ps) \<le> lim
            \<and> http_status (fst (get_products lim off db)) = 200)
       \<and> fst (route_get_products None None db)
           = Inr (map from_orm (take 100 (sort_key Product.prd_id (rows db))))
       \<and> (3 \<le> length (rows db) \<longrightarrow>
            fst (route_get_products (Some 2) (Some 1) db)
              = Inr [from_orm (sort_key Product.prd_id (rows db) ! 1),
                     from_orm (sort_key Product.prd_id (rows db) ! 2)])"
proof -
  let ?s = "sort_key Product.prd_id (rows db)"
  let ?ps = "map from_orm (take (nat lim) (drop (nat off) ?s))"
  have a: "fst (get_products lim off db) = Inr ?ps"
    by (rule get_products_ok [OF assms])
  have b: "sorted (map ProductSchema.prd_id ?ps)"
    by (simp only: from_orm_prd_id sorted_page)
  have c: "int (length ?ps) \<le> lim"
    using assms(2) by simp
  have d: "fst (route_get_products None None db) = Inr (map from_orm (take 100 ?s))"
    using get_products_ok [OF assms(1), of 100 0] by (simp add: route_get_products_def)
  have e: "fst (route_get_products (Some 2) (Some 1) db)
              = Inr [from_orm (?s ! 1), from_orm (?s ! 2)]" if "3 \<le> length (rows db)"
  proof -
    have "3 \<le> length ?s" using that by simp
    then have "take 2 (drop 1 ?s) = [?s ! 1, ?s ! 2]" by (rule second_and_third)
    then show ?thesis
      using get_products_ok [OF assms(1), of 2 1] by (simp add: route_get_products_def)
  qed
  show ?thesis using a b c d e by simp
qed


theorem get_products_page_witness:
  "fault example_db = None \<and> (0::int) \<le> 2 \<and> (0::int) \<le> 1 \<and> 3 \<le> length (rows example_db)
   \<and> fst (get_products 2 1 example_db)
       = Inr [\<lparr>ProductSchema.prd_id = 2, code = 4514603365313, name = ''Water'',
                attributes = 100\<rparr>,
              \<lparr>ProductSchema.prd_id = 3, code = 4901234567894, name = ''Green tea'',
                attributes = 150\<rparr>]
   \<and> fst (route_get_products (Some 2) (Some 1) example_db) = fst (get_products 2 1 example_db)
   \<and> fst (route_get_products None None example_db)
       = Inr [\<lparr>ProductSchema.prd_id = 1, code = 4902102072618, name = ''Cola'',
                attributes = 120\<rparr>,
              \<lparr>ProductSchema.prd_id = 2, code = 4514603365313, name = ''Water'',
                attributes = 100\<rparr>,
              \<lparr>ProductSchema.prd_id = 3, code = 4901234567894, name = ''Green tea'',
                attributes = 150\<rparr>]"
proof -
  have f: "fault example_db = None"
    by (simp add: example_db_def)
  have n: "3 \<le> length (rows example_db)"
    by (simp add: example_db_def example_rows_def)
  have s: "sort_key Product.prd_id (rows example_db)
         = [\<lparr>Product.prd_id = 1, code = 4902102072618, name = ''Cola'', attributes = 120\<rparr>,
            \<lparr>Product.prd_id = 2, code = 4514603365313, name = ''Water'', attributes = 100\<rparr>,
            \<lparr>Product.prd_id = 3, code = 4901234567894, name = ''Green tea'',
               attributes = 150\<rparr>]"
    by (simp add: example_db_def example_rows_def)
  show ?thesis
    using get_products_page [OF f, of 2 1] f n by (simp add: s from_orm_def)
qed

text \<open>
  C3, for a negative \<open>limit\<close>. The handler hands \<open>limit = -1\<close> to the store
  unchecked. On an engine that ignores the clause the answer is the whole table, three rows
  and not at most \<open>-1\<close>; on an engine that rejects the statement the answer is the
  database error response and no rows at all.
\<close>

theorem get_products_negative_limit_counterexample:
  "fault example_db_lenient = None \<and> fault example_db = None
   \<and> fst (get_products (- 1) 0 example_db_lenient)
       = Inr [\<lparr>ProductSchema.prd_id = 1, code = 4902102072618, name = ''Cola'',
                attributes = 120\<rparr>,
              \<lparr>ProductSchema.prd_id = 2, code = 4514603365313, name = ''Water'',
                attributes = 100\<rparr>,
              \<lparr>ProductSchema.prd_id = 3, code = 4901234567894, name = ''Green tea'',
                attributes = 150\<rparr>]
   \<and> \<not> (\<exists>ps. fst (get_products (- 1) 0 example_db_lenient) = Inr ps \<and> int (length ps) \<le> - 1)
   \<and> fst (get_products (- 1) 0 example_db) = Inl (HTTPException 500 database_error_detail)
   \<and> \<not> (\<exists>ps. fst (get_products (- 1) 0 example_db) = Inr ps \<and> int (length ps) \<le> - 1)"
  by (simp add: get_products_fst get_products_try_def execute_def fetch_def
      order_by_prd_id_def offset_def limit_def select_Product_def is_negative_def
      apply_limit_def apply_offset_def example_db_def example_db_lenient_def example_rows_def
      ignore_negative_def reject_negative_def get_products_except_def from_orm_def)

section \<open>Validation of the requested code\<close>

text \<open>
  A code below 1 or above the declared upper bound never reaches the handler: the session is
  handed back as it was, and the client receives the validation error.
\<close>

lemma route_rejects_out_of_range:
  assumes "c < code_ge \<or> code_le < c"
  shows "route_get_product_by_code c db = (Inl RequestValidationError, db)"
    and "http_status (fst (route_get_product_by_code c db)) = 422"
    and "executed (snd (route_get_product_by_code c db)) = executed db"
  using assms by (auto simp: route_get_product_by_code_def)

text \<open>
  C4. The handler's documentation gives the code 1 to 25 digits, but the declared upper bound
  is written with 26 nines. The 26-digit code \<open>10^25\<close> therefore passes validation: the
  statement is handed to the store and the request ends in the not-found response, status
  404, rather than in a validation error.
\<close>

theorem route_accepts_26_digit_code:
  "(9999999999999999999999999 :: int) < 10000000000000000000000000
   \<and> fst (route_get_product_by_code 10000000000000000000000000 example_db)
       = Inl (HTTPException 404 (product_not_found_detail 10000000000000000000000000))
   \<and> http_status (fst (route_get_product_by_code 10000000000000000000000000 example_db)) = 404
   \<and> executed (snd (route_get_product_by_code 10000000000000000000000000 example_db))
       = [\<lparr>where_code_eq = Some 10000000000000000000000000, limit_clause = None,
            offset_clause = None, order_by_clause = False\<rparr>]"
proof -
  have f: "fault example_db = None"
    by (simp add: example_db_def)
  have r: "filter (\<lambda>p. Product.code p = 10000000000000000000000000) (rows example_db) = []"
    by (simp add: example_db_def example_rows_def)
  have a: "fst (get_product_by_code 10000000000000000000000000 example_db)
       = Inl (HTTPException 404 (product_not_found_detail 10000000000000000000000000))"
    using try_found [OF f r]
    by (simp add: get_product_by_code_fst get_product_by_code_except_def)
  have b: "executed (snd (get_product_by_code 10000000000000000000000000 example_db))
       = [\<lparr>where_code_eq = Some 10000000000000000000000000, limit_clause = None,
            offset_clause = None, order_by_clause = False\<rparr>]"
    by (simp add: get_product_by_code_snd where_code_def select_Product_def example_db_def)
  show ?thesis
    using a b by (simp add: route_get_product_by_code_def code_ge_def code_le_def)
qed

section \<open>Failures\<close>

lemma except_SQLAlchemyError:
  assumes "isinstance_SQLAlchemyError e"
  shows "get_product_by_code_except e = HTTPException 500 database_error_detail"
    and "get_products_except e = HTTPException 500 database_error_detail"
  using assms
  by (cases e; simp add: get_product_by_code_except_def get_products_except_def)+

text \<open>
  C5, for a failure of class \<^verbatim>\<open>SQLAlchemyError\<close>. The handlers tell a store failure from any
  other failure by the class of the exception. When \<^verbatim>\<open>db.execute\<close> raises an instance of
  \<^verbatim>\<open>SQLAlchemyError\<close>, both handlers end in an \<^verbatim>\<open>HTTPException\<close> of status 500 whose detail
  has the error kind "Database Error". The detail is the same fixed value whatever the
  exception and its text are.
\<close>

theorem store_failure_database_error:
  assumes "fault db = Some e" and "isinstance_SQLAlchemyError e"
  shows "fst (get_product_by_code c db) = Inl (HTTPException 500 database_error_detail)
       \<and> fst (get_products lim off db) = Inl (HTTPException 500 database_error_detail)
       \<and> http_status (fst (get_product_by_code c db)) = 500
       \<and> http_status (fst (get_products lim off db)) = 500
       \<and> map_of database_error_detail ''error'' = Some (JStr ''Database Error'')"
  using try_fault [OF assms(1)] except_SQLAlchemyError [OF assms(2)]
  by (simp add: get_product_by_code_fst get_products_fst database_error_detail_def)

theorem store_failure_database_error_witness:
  "fault example_db_failing = Some (SQLAlchemyError ''connection refused'')
   \<and> isinstance_SQLAlchemyError (SQLAlchemyError ''connection refused'')
   \<and> fst (get_product_by_code 4902102072618 example_db_failing)
       = Inl (HTTPException 500
               [(''error'', JStr ''Database Error''), (''message'', JStr msg_database_error)])
   \<and> fst (get_products 100 0 example_db_failing)
       = Inl (HTTPException 500
               [(''error'', JStr ''Database Error''), (''message'', JStr msg_database_error)])"
proof -
  have f: "fault example_db_failing = Some (SQLAlchemyError ''connection refused'')"
    by (simp add: example_db_failing_def)
  have i: "isinstance_SQLAlchemyError (SQLAlchemyError ''connection refused'')"
    by simp
  show ?thesis
    using store_failure_database_error [OF f i, of 4902102072618 100 0] f i
    by (simp add: database_error_detail_def)
qed

lemma except_other:
  assumes "\<not> isinstance_HTTPException e" and "\<not> isinstance_SQLAlchemyError e"
  shows "get_product_by_code_except e = HTTPException 500 internal_server_error_detail"
    and "get_products_except e = HTTPException 500 internal_server_error_detail"
  using assms by (simp_all add: get_product_by_code_except_def get_products_except_def)

text \<open>
  C5, for a failure of another class. A store whose \<^verbatim>\<open>db.execute\<close> raises an exception
  that is not a \<^verbatim>\<open>SQLAlchemyError\<close> falls to the last \<^verbatim>\<open>except\<close> clause of either handler:
  the response has status 500, but its error kind is "Internal Server Error", not
  "Database Error". Here too the detail is a fixed value without the exception's text.
\<close>

theorem store_failure_other_class_counterexample:
  "fault example_db_broken = Some (OtherException ''connection reset by peer'')
   \<and> fst (get_product_by_code 4902102072618 example_db_broken)
       = Inl (HTTPException 500
               [(''error'', JStr ''Internal Server Error''),
                (''message'', JStr msg_internal_error)])
   \<and> fst (get_products 100 0 example_db_broken)
       = Inl (HTTPException 500
               [(''error'', JStr ''Internal Server Error''),
                (''message'', JStr msg_internal_error)])
   \<and> fst (get_product_by_code 4902102072618 example_db_broken)
       \<noteq> Inl (HTTPException 500 database_error_detail)
   \<and> fst (get_products 100 0 example_db_broken)
       \<noteq> Inl (HTTPException 500 database_error_detail)
   \<and> map_of internal_server_error_detail ''error'' \<noteq> Some (JStr ''Database Error'')"
proof -
  have f: "fault example_db_broken = Some (OtherException ''connection reset by peer'')"
    by (simp add: example_db_broken_def)
  have a: "fst (get_product_by_code 4902102072618 example_db_broken)
       = Inl (HTTPException 500 internal_server_error_detail)"
    using try_fault(1) [OF f] by (simp add: get_product_by_code_fst except_other)
  have b: "fst (get_products 100 0 example_db_broken)
       = Inl (HTTPException 500 internal_server_error_detail)"
    using try_fault(2) [OF f] by (simp add: get_products_fst except_other)
  show ?thesis
    using f a b by (simp add: internal_server_error_detail_def database_error_detail_def)
qed

text \<open>
  C6. The fallback handler answers every exception, for every request, with status 500 and
  one fixed body; any two calls give the same response. An exception that is neither an
  \<^verbatim>\<open>HTTPException\<close> nor a validation failure reaches the client with that status.
\<close>

theorem global_exception_handler_fixed:
  "global_exception_handler request exc
     = \<lparr>status_code = 500,
        content = [(''error'', JStr ''Internal Server Error''),
                   (''message'', JStr ''An unexpected error occurred'')]\<rparr>
   \<and> global_exception_handler request exc = global_exception_handler request' exc'
   \<and> http_status (Inl (SQLAlchemyError m)) = 500
   \<and> http_status (Inl MultipleResultsFound) = 500
   \<and> http_status (Inl (OtherException m)) = 500"
  by (simp add: global_exception_handler_def)

text \<open>
  C7. Whenever the body of the lookup handler's \<^verbatim>\<open>try\<close> raises an \<^verbatim>\<open>HTTPException\<close>, the
  handler raises that same exception, status and detail unchanged. In particular, when the
  store answers and no row has the requested code, the body raises the 404 and the handler's
  outcome is that 404, never a 500.
\<close>

theorem http_exception_reraised:
  "(fst (get_product_by_code_try c db) = Inl (HTTPException sc d) \<longrightarrow>
      fst (get_product_by_code c db) = Inl (HTTPException sc d))
   \<and> (fault db = None \<and> filter (\<lambda>p. Product.code p = c) (rows db) = [] \<longrightarrow>
        fst (get_product_by_code_try c db) = Inl (HTTPException 404 (product_not_found_detail c))
      \<and> fst (get_product_by_code c db) = Inl (HTTPException 404 (product_not_found_detail c))
      \<and> http_status (fst (get_product_by_code c db)) \<noteq> 500)"
proof -
  have a: "fst (get_product_by_code c db) = Inl (HTTPException sc d)"
    if "fst (get_product_by_code_try c db) = Inl (HTTPException sc d)"
    using that by (simp add: get_product_by_code_fst get_product_by_code_except_def)
  have b: "fst (get_product_by_code_try c db)
             = Inl (HTTPException 404 (product_not_found_detail c))"
    if "fault db = None" and "filter (\<lambda>p. Product.code p = c) (rows db) = []"
    using try_found [OF that] by simp
  show ?thesis
    using a b by (simp add: get_product_by_code_fst get_product_by_code_except_def)
qed

theorem http_exception_reraised_witness:
  "fault example_db = None
   \<and> filter (\<lambda>p. Product.code p = 4900000000000) (rows example_db) = []
   \<and> fst (get_product_by_code_try 4900000000000 example_db)
       = Inl (HTTPException 404 (product_not_found_detail 4900000000000))
   \<and> fst (get_product_by_code 4900000000000 example_db)
       = Inl (HTTPException 404 (product_not_found_detail 4900000000000))
   \<and> http_status (fst (get_product_by_code 4900000000000 example_db)) = 404"
proof -
  have f: "fault example_db = None"
    by (simp add: example_db_def)
  have r: "filter (\<lambda>p. Product.code p = 4900000000000) (rows example_db) = []"
    by (simp add: example_db_def example_rows_def)
  show ?thesis
    using http_exception_reraised
      [of 4900000000000 example_db 404 "product_not_found_detail 4900000000000"] f r
    by simp
qed

text \<open>
  C8. For all integers \<open>limit\<close> and \<open>offset\<close>, negative and zero included, the listing
  handler hands the store exactly one statement, carrying those two values as they came, and
  its outcome is the store's answer to that statement: there is no branch that checks a range.
\<close>

theorem get_products_passes_limit_and_offset:
  "executed (snd (get_products lim off db))
     = executed db @ [\<lparr>where_code_eq = None, limit_clause = Some lim,
                        offset_clause = Some off, order_by_clause = True\<rparr>]
   \<and> executed (snd (route_get_products (Some lim) (Some off) db))
     = executed db @ [\<lparr>where_code_eq = None, limit_clause = Some lim,
                        offset_clause = Some off, order_by_clause = True\<rparr>]
   \<and> fst (get_products_try lim off db)
     = (case fst (execute db \<lparr>where_code_eq = None, limit_clause = Some lim,
                               offset_clause = Some off, order_by_clause = True\<rparr>) of
          Inl e \<Rightarrow> Inl e
        | Inr products \<Rightarrow> Inr (map from_orm products))"
proof -
  have s: "order_by_prd_id (offset off (limit lim select_Product))
         = \<lparr>where_code_eq = None, limit_clause = Some lim,
            offset_clause = Some off, order_by_clause = True\<rparr>"
    by (simp add: order_by_prd_id_def offset_def limit_def select_Product_def)
  have t: "fst (get_products_try lim off db)
     = (case fst (execute db (order_by_prd_id (offset off (limit lim select_Product)))) of
          Inl e \<Rightarrow> Inl e
        | Inr products \<Rightarrow> Inr (map from_orm products))"
    by (simp add: get_products_try_def Let_def split: prod.splits sum.splits)
  show ?thesis
    using t by (simp add: get_products_snd route_get_products_def s)
qed

text \<open>
  C9. Whatever the outcome, the product table after a request to either handler, or to either
  route, is the table before it.
\<close>

theorem handlers_leave_store_unchanged:
  "rows (snd (get_product_by_code c db)) = rows db
   \<and> rows (snd (get_products lim off db)) = rows db
   \<and> rows (snd (route_get_product_by_code c db)) = rows db
   \<and> rows (snd (route_get_products l_opt o_opt db)) = rows db"
  by (simp add: get_product_by_code_snd get_products_snd route_get_product_by_code_def
      route_get_products_def)

text \<open>
  C10. When the store answers and more than one row has the requested code, the single-row
  extraction raises \<^verbatim>\<open>MultipleResultsFound\<close>, the handler answers with the database error
  response of status 500, and no row is returned.
\<close>

theorem duplicate_code_database_error:
  assumes "fault db = None"
    and "1 < length (filter (\<lambda>p. Product.code p = c) (rows db))"
  shows "fst (get_product_by_code_try c db) = Inl MultipleResultsFound
       \<and> fst (get_product_by_code c db) = Inl (HTTPException 500 database_error_detail)
       \<and> http_status (fst (get_product_by_code c db)) = 500
       \<and> (\<forall>body. fst (get_product_by_code c db) \<noteq> Inr body)"
proof -
  obtain x y zs where "filter (\<lambda>p. Product.code p = c) (rows db) = x # y # zs"
    using assms(2)
    by (cases "filter (\<lambda>p. Product.code p = c) (rows db)";
        cases "tl (filter (\<lambda>p. Product.code p = c) (rows db))") auto
  then have "fst (get_product_by_code_try c db) = Inl MultipleResultsFound"
    using try_found [OF assms(1)] by simp
  then show ?thesis
    by (simp add: get_product_by_code_fst get_product_by_code_except_def)
qed

theorem duplicate_code_database_error_witness:
  "fault example_db_duplicates = None
   \<and> 1 < length (filter (\<lambda>p. Product.code p = 4902102072618) (rows example_db_duplicates))
   \<and> fst (get_product_by_code 4902102072618 example_db_duplicates)
       = Inl (HTTPException 500
               [(''error'', JStr ''Database Error''), (''message'', JStr msg_database_error)])
   \<and> http_status (fst (get_product_by_code 4902102072618 example_db_duplicates)) = 500"
proof -
  have f: "fault example_db_duplicates = None"
    by (simp add: example_db_duplicates_def)
  have n: "1 < length (filter (\<lambda>p. Product.code p = 4902102072618)
                         (rows example_db_duplicates))"
    by (simp add: example_db_duplicates_def)
  show ?thesis
    using duplicate_code_database_error [OF f n] f n by (simp add: database_error_detail_def)
qed

end
